theory Spec2Isabelle
  imports Complex_Main "HOL-Library.Sublist" "HOL-Library.Char_ord" "HOL-Library.List_Lexorder"
begin

section \<open>Text representation notebook: tokenizer, count vectorizer, evaluator\<close>

text \<open>
  The notebook \<^verbatim>\<open>1_NLP_Text_Representation.ipynb\<close> defines one function of its own,
  \<^verbatim>\<open>spacy_tokenizer\<close>, over three globals: the loaded language pipeline \<^verbatim>\<open>nlp\<close>,
  the set \<^verbatim>\<open>stop_words\<close> and the string \<^verbatim>\<open>punctuations\<close>.

  A Python \<^verbatim>\<open>str\<close> is modelled as a \<^typ>\<open>string\<close> holding its UTF-8 bytes. Equality,
  set membership, the substring test against an ASCII string and the code point order
  of two strings are the same on the bytes as on the code points.
\<close>

subsection \<open>Data model\<close>

text \<open>A token of a parsed document, with the fields \<^verbatim>\<open>text\<close> and \<^verbatim>\<open>lemma_\<close> of a
  spaCy token; the tokenizer reads only the second.\<close>

record token =
  text_str :: string
  lemma_str :: string

type_synonym doc = "token list"

text \<open>The language pipeline \<^verbatim>\<open>nlp = spacy.load("en_core_web_sm")\<close> is a pretrained
  library model; every function below takes it as a parameter.\<close>

type_synonym pipeline = "string \<Rightarrow> doc"

text \<open>\<^verbatim>\<open>stop_words = nlp.Defaults.stop_words\<close>, the 326 strings the notebook prints,
  in the printed order.\<close>

definition stop_words_list :: "string list" where
  "stop_words_list = [
    ''if'', ''behind'', ''about'', ''rather'', [CHR 0xE2, CHR 0x80, CHR 0x99] @ ''s'',
    ''after'', ''whether'', ''anything'', [CHR 0xE2, CHR 0x80, CHR 0x99] @ ''m'', ''as'',
    ''five'', ''anyway'', ''per'', ''my'', ''most'', ''still'', ''whose'', ''should'',
    ''have'', ''unless'', ''they'', ''has'', [CHR 0xE2, CHR 0x80, CHR 0x98] @ ''s'', ''once'',
    [CHR 0x27] @ ''m'', ''no'', ''up'', ''elsewhere'', ''of'', ''at'', ''any'', ''so'',
    ''throughout'', ''together'', ''everywhere'', ''ca'', ''these'', ''hundred'', ''four'',
    ''yours'', ''whom'', ''both'', ''in'', ''front'', ''others'', ''somehow'', ''eleven'',
    ''could'', ''would'', ''became'', ''very'', ''do'', [CHR 0xE2, CHR 0x80, CHR 0x98] @ ''m'',
    ''last'', ''nobody'', ''used'', ''formerly'', ''meanwhile'', ''why'', ''whenever'',
    ''amongst'', ''down'', ''often'', ''besides'', ''two'', ''go'', ''ten'', ''from'',
    ''whereas'', ''moreover'', ''n'' @ [CHR 0x27] @ ''t'', ''whole'', ''many'', ''them'',
    ''sometime'', ''anywhere'', ''else'', ''such'', ''make'', ''becoming'', ''thru'',
    ''among'', ''into'', ''indeed'', ''itself'', ''the'', ''latterly'', ''otherwise'',
    ''that'', ''themselves'', ''also'', ''its'', ''various'', ''did'', ''hereafter'', ''some'',
    ''whither'', ''me'', ''really'', ''on'', ''however'', ''anyhow'', ''all'', ''re'',
    ''move'', ''never'', ''fifty'', ''he'', ''above'', ''thereafter'', ''out'', ''which'',
    ''was'', ''keep'', ''here'', ''get'', ''one'', ''hers'', ''when'', ''although'', ''her'',
    ''doing'', ''may'', ''forty'', ''without'', ''nor'', ''give'', ''our'', ''we'',
    ''sometimes'', ''via'', ''namely'', [CHR 0x27] @ ''s'', ''always'', ''are'', ''least'',
    ''were'', ''onto'', ''been'', ''it'', ''neither'', ''same'', ''first'', ''name'',
    ''seems'', ''what'', ''several'', ''latter'', ''ever'', ''full'', ''upon'', ''now'',
    ''within'', ''while'', ''beyond'', ''fifteen'', ''less'', [CHR 0x27] @ ''re'', ''whoever'',
    ''or'', ''but'', ''yourself'', ''below'', [CHR 0x27] @ ''d'', ''wherever'', ''anyone'',
    ''not'', ''beside'', ''empty'', ''cannot'', ''take'', ''twenty'', ''become'',
    ''afterwards'', ''each'', ''quite'', ''himself'', ''toward'', ''hereby'', ''next'',
    [CHR 0xE2, CHR 0x80, CHR 0x98] @ ''d'', ''across'', ''am'', ''every'', ''much'',
    ''amount'', ''more'', ''serious'', ''eight'', ''your'', [CHR 0x27] @ ''ve'', ''another'',
    ''everyone'', ''third'', ''for'', [CHR 0xE2, CHR 0x80, CHR 0x98] @ ''ve'', ''thereupon'',
    ''again'', ''n'' @ [CHR 0xE2, CHR 0x80, CHR 0x98] @ ''t'', ''where'', ''nevertheless'',
    ''an'', ''seeming'', ''yourselves'', ''who'', ''she'', ''call'', ''using'', ''whereupon'',
    [CHR 0xE2, CHR 0x80, CHR 0x99] @ ''ll'', ''sixty'', ''therefore'', ''whatever'', ''just'',
    ''mine'', ''thereby'', ''yet'', ''n'' @ [CHR 0xE2, CHR 0x80, CHR 0x99] @ ''t'', ''due'',
    ''myself'', ''under'', ''something'', ''had'', ''since'', ''his'', ''ours'', ''might'',
    ''therein'', ''back'', ''off'', ''will'', ''though'', ''enough'', ''whereby'', ''you'',
    ''becomes'', [CHR 0xE2, CHR 0x80, CHR 0x98] @ ''ll'', ''can'', ''somewhere'', ''this'',
    ''whereafter'', ''further'', ''own'', [CHR 0xE2, CHR 0x80, CHR 0x99] @ ''re'', ''six'',
    ''regarding'', ''i'', ''only'', ''nothing'', ''twelve'', ''before'', ''see'', ''nine'',
    ''top'', ''either'', ''until'', ''nowhere'', ''to'', ''put'', ''other'', ''between'',
    ''well'', ''seem'', ''wherein'', ''hence'', ''us'', ''herself'', ''except'', ''and'',
    ''someone'', [CHR 0xE2, CHR 0x80, CHR 0x99] @ ''d'', ''hereupon'', ''almost'', ''none'',
    ''those'', ''ourselves'', [CHR 0xE2, CHR 0x80, CHR 0x98] @ ''re'', ''be'', ''part'',
    ''too'', ''does'', ''him'', ''thence'', ''former'', [CHR 0x27] @ ''ll'', ''seemed'',
    ''there'', ''thus'', ''how'', ''then'', ''along'', ''is'', ''made'', ''over'', ''side'',
    ''beforehand'', ''mostly'', ''must'', ''please'', ''around'', ''perhaps'', ''because'',
    ''than'', ''three'', ''even'', ''say'', ''against'', ''during'', ''bottom'',
    [CHR 0xE2, CHR 0x80, CHR 0x99] @ ''ve'', ''herein'', ''everything'', ''noone'', ''a'',
    ''alone'', ''being'', ''whence'', ''already'', ''their'', ''with'', ''by'', ''done'',
    ''few'', ''show'', ''towards'', ''through'']"

definition stop_words :: "string set" where
  "stop_words = set stop_words_list"

text \<open>\<^verbatim>\<open>punctuations = string.punctuation\<close>, the string the notebook prints.\<close>

definition punctuations :: string where
  "punctuations = ''!'' @ [CHR 0x22] @ ''#$%&'' @ [CHR 0x27] @ ''()*+,-./:;<=>?@['' @ [CHR 0x5C]
     @ '']^_'' @ [CHR 0x60] @ ''{|}~''"

subsection \<open>Python built-ins used by the tokenizer\<close>

text \<open>
  \<^verbatim>\<open>str.lower()\<close>. A str that is ASCII is lower-cased letter by letter, A to Z going
  to a to z. Any other str goes through the Unicode case mapping of the interpreter
  (the lower-case mapping of each code point, with its rule for a final sigma); the
  tables of that mapping belong to the Python runtime and not to the notebook, so the
  mapping is a parameter, a function on the UTF-8 bytes of the str.
\<close>

definition is_ascii :: "char \<Rightarrow> bool" where
  "is_ascii c = ((of_char c :: nat) < 128)"

definition lower_char :: "char \<Rightarrow> char" where
  "lower_char c =
     (let n = (of_char c :: nat) in if 65 \<le> n \<and> n \<le> 90 then char_of (n + 32) else c)"

type_synonym unicode_lower = "string \<Rightarrow> string"

definition lower :: "unicode_lower \<Rightarrow> string \<Rightarrow> string" where
  "lower ulower s = (if list_all is_ascii s then map lower_char s else ulower s)"

text \<open>\<^verbatim>\<open>sub in s\<close> on two strings: \<^verbatim>\<open>sub\<close> occurs in \<^verbatim>\<open>s\<close> at some position
  (the empty string occurs in every string).\<close>

primrec str_contains :: "string \<Rightarrow> string \<Rightarrow> bool" where
  "str_contains [] sub = (sub = [])"
| "str_contains (c # cs) sub = (prefix sub (c # cs) \<or> str_contains cs sub)"

subsection \<open>The custom tokenizer\<close>

text \<open>
  \<^verbatim>\<open>
  def spacy_tokenizer(sentence):
      doc = nlp(sentence)
      mytokens = [word.lemma_.lower() for word in doc]
      mytokens = [token for token in mytokens
                  if token not in stop_words and token not in punctuations]
      return mytokens
  \<close>
  The first \<^verbatim>\<open>not in\<close> is membership in a set, the second is the substring test on
  a string. The two library services the function calls, the Unicode case mapping
  behind \<^verbatim>\<open>lower()\<close> and the pipeline \<^verbatim>\<open>nlp\<close>, are its first two arguments.
\<close>

definition spacy_tokenizer :: "unicode_lower \<Rightarrow> pipeline \<Rightarrow> string \<Rightarrow> string list" where
  "spacy_tokenizer ulower nlp sentence =
     (let doc = nlp sentence;
          mytokens = map (\<lambda>word. lower ulower (lemma_str word)) doc;
          mytokens = filter (\<lambda>token. token \<notin> stop_words
                                     \<and> \<not> str_contains punctuations token) mytokens
      in mytokens)"

text \<open>\<^verbatim>\<open>sentences = ["I am eating apple, I like apple","I am playing cricket"]\<close>\<close>

definition sentences :: "string list" where
  "sentences = [''I am eating apple, I like apple'', ''I am playing cricket'']"

subsection \<open>A table pipeline and a table case mapping\<close>

text \<open>
  A pipeline given by a finite table of parsed documents, and the table used to
  instantiate the theorems below: the two sentences of the notebook with the lemmas
  its outputs show (\<^verbatim>\<open>eating\<close> to \<^verbatim>\<open>eat\<close>, \<^verbatim>\<open>playing\<close> to \<^verbatim>\<open>play\<close>), a single
  word, the empty string, a sentence with a proper noun, one that ends in an
  ellipsis, which the English tokenizer keeps as one token, and the single character
  U+1D400 (mathematical bold capital A).
\<close>

definition tok :: "string \<Rightarrow> string \<Rightarrow> token" where
  "tok t l = \<lparr>text_str = t, lemma_str = l\<rparr>"

definition table_pipeline :: "(string \<times> doc) list \<Rightarrow> pipeline" where
  "table_pipeline tbl sentence = (case map_of tbl sentence of None \<Rightarrow> [] | Some d \<Rightarrow> d)"

text \<open>U+1D400 in UTF-8: an upper-case letter that has no lower-case mapping.\<close>

definition math_bold_A :: string where
  "math_bold_A = [CHR 0xF0, CHR 0x9D, CHR 0x90, CHR 0x80]"

text \<open>The names \<^verbatim>\<open>Emile\<close> with an upper-case and with a lower-case E acute (U+00C9, U+00E9).\<close>

definition Emile_upper :: string where
  "Emile_upper = [CHR 0xC3, CHR 0x89] @ ''mile''"

definition Emile_lower :: string where
  "Emile_lower = [CHR 0xC3, CHR 0xA9] @ ''mile''"

definition sample_docs :: "(string \<times> doc) list" where
  "sample_docs =
    [(''I am eating apple, I like apple'',
        [tok ''I'' ''I'', tok ''am'' ''be'', tok ''eating'' ''eat'', tok ''apple'' ''apple'',
         tok '','' '','', tok ''I'' ''I'', tok ''like'' ''like'', tok ''apple'' ''apple'']),
     (''I am playing cricket'',
        [tok ''I'' ''I'', tok ''am'' ''be'', tok ''playing'' ''play'',
         tok ''cricket'' ''cricket'']),
     (''apple'', [tok ''apple'' ''apple'']),
     ([], []),
     (''I like London'',
        [tok ''I'' ''I'', tok ''like'' ''like'', tok ''London'' ''London'']),
     (''Wait...'', [tok ''Wait'' ''wait'', tok ''...'' ''...'']),
     (math_bold_A, [tok math_bold_A math_bold_A])]"

definition sample_nlp :: pipeline where
  "sample_nlp = table_pipeline sample_docs"

text \<open>
  A case mapping given by a finite table of strings; a string that is not in the table
  is left as it is, as \<^verbatim>\<open>lower()\<close> leaves U+1D400.
\<close>

definition table_lower :: "(string \<times> string) list \<Rightarrow> unicode_lower" where
  "table_lower tbl s = (case map_of tbl s of None \<Rightarrow> s | Some r \<Rightarrow> r)"

definition sample_ulower :: unicode_lower where
  "sample_ulower = table_lower [(Emile_upper, Emile_lower)]"


subsection \<open>Count vectorizer\<close>

text \<open>
  Modelled from the spec: \<^verbatim>\<open>CountVectorizer\<close> is a class of scikit-learn and is not
  under src/; the notebook only constructs it,
  \<^verbatim>\<open>cv = CountVectorizer(tokenizer=spacy_tokenizer)\<close>, and calls \<^verbatim>\<open>fit_transform\<close>,
  \<^verbatim>\<open>get_feature_names_out\<close> and \<^verbatim>\<open>vocabulary_\<close>. The spec: fit learns a vocabulary
  (token to column index) from a training corpus using the tokenizer on each document,
  and discards the prior vocabulary; transform maps each document to a fixed-width
  row using the learned vocabulary, ignoring tokens not present in it; the count
  variant emits raw occurrence counts per column. Of the two column orders the spec
  allows, the sorted one is the one the notebook's outputs show.
\<close>

record CountVectorizer =
  tokenizer :: "string \<Rightarrow> string list"
  vocabulary :: "(string \<times> nat) list"

definition fit :: "CountVectorizer \<Rightarrow> string list \<Rightarrow> CountVectorizer" where
  "fit cv corpus =
     (let terms = sort (remdups (concat (map (tokenizer cv) corpus)))
      in cv\<lparr>vocabulary := zip terms [0..<length terms]\<rparr>)"

primrec count_row :: "(string \<rightharpoonup> nat) \<Rightarrow> string list \<Rightarrow> nat list \<Rightarrow> nat list" where
  "count_row vocab [] row = row"
| "count_row vocab (t # ts) row =
     (case vocab t of
        None \<Rightarrow> count_row vocab ts row
      | Some j \<Rightarrow> count_row vocab ts (row[j := row ! j + 1]))"

definition transform :: "CountVectorizer \<Rightarrow> string list \<Rightarrow> nat list list" where
  "transform cv corpus =
     map (\<lambda>d. count_row (map_of (vocabulary cv)) (tokenizer cv d)
                 (replicate (length (vocabulary cv)) 0)) corpus"

definition fit_transform :: "CountVectorizer \<Rightarrow> string list \<Rightarrow> CountVectorizer \<times> nat list list" where
  "fit_transform cv corpus = (let cv' = fit cv corpus in (cv', transform cv' corpus))"

definition get_feature_names_out :: "CountVectorizer \<Rightarrow> string list" where
  "get_feature_names_out cv = map fst (vocabulary cv)"

text \<open>\<^verbatim>\<open>cv = CountVectorizer(tokenizer=spacy_tokenizer)\<close>, not yet fitted.\<close>

definition cv :: "unicode_lower \<Rightarrow> pipeline \<Rightarrow> CountVectorizer" where
  "cv ulower nlp = \<lparr>tokenizer = spacy_tokenizer ulower nlp, vocabulary = []\<rparr>"

definition shape :: "nat list list \<Rightarrow> nat \<times> nat" where
  "shape m = (length m, case m of [] \<Rightarrow> 0 | r # _ \<Rightarrow> length r)"

subsection \<open>Evaluator\<close>

text \<open>
  Modelled from the spec: \<^verbatim>\<open>metrics.precision_score\<close>, \<^verbatim>\<open>metrics.recall_score\<close> and the
  F1 score of \<^verbatim>\<open>classification_report\<close> are functions of scikit-learn and are not under
  src/; the notebook only calls them. The spec: given predicted and true label
  sequences of equal length, compute precision and recall and F1 for the positive
  class; undefined (division-by-zero) cases are handled by returning 0 rather than
  raising. Labels are 0 and 1, the positive class is 1, precision is the ratio of the
  true positives to the predicted positives, recall their ratio to the actual
  positives, F1 the harmonic mean of the two, and a score is the exact ratio (the
  rounding of a float is not modelled). Sequences of different lengths are outside
  the contract and give an error.
\<close>

datatype error = InconsistentLength | ZeroDivisionError

definition true_pos :: "nat list \<Rightarrow> nat list \<Rightarrow> nat" where
  "true_pos y_true y_pred = length (filter (\<lambda>(t, p). t = 1 \<and> p = 1) (zip y_true y_pred))"

definition false_pos :: "nat list \<Rightarrow> nat list \<Rightarrow> nat" where
  "false_pos y_true y_pred = length (filter (\<lambda>(t, p). t \<noteq> 1 \<and> p = 1) (zip y_true y_pred))"

definition false_neg :: "nat list \<Rightarrow> nat list \<Rightarrow> nat" where
  "false_neg y_true y_pred = length (filter (\<lambda>(t, p). t = 1 \<and> p \<noteq> 1) (zip y_true y_pred))"

text \<open>The plain division of two numbers: undefined, an error, when the denominator is 0.\<close>

definition py_div :: "rat \<Rightarrow> rat \<Rightarrow> error + rat" where
  "py_div num den = (if den = 0 then Inl ZeroDivisionError else Inr (num / den))"

text \<open>A ratio whose undefined case is handled by returning 0.\<close>

definition ratio_or_zero :: "rat \<Rightarrow> rat \<Rightarrow> rat" where
  "ratio_or_zero num den = (case py_div num den of Inl e \<Rightarrow> 0 | Inr q \<Rightarrow> q)"

definition precision_score :: "nat list \<Rightarrow> nat list \<Rightarrow> error + rat" where
  "precision_score y_true y_pred =
     (if length y_true \<noteq> length y_pred then Inl InconsistentLength
      else Inr (ratio_or_zero (of_nat (true_pos y_true y_pred))
                  (of_nat (true_pos y_true y_pred + false_pos y_true y_pred))))"

definition recall_score :: "nat list \<Rightarrow> nat list \<Rightarrow> error + rat" where
  "recall_score y_true y_pred =
     (if length y_true \<noteq> length y_pred then Inl InconsistentLength
      else Inr (ratio_or_zero (of_nat (true_pos y_true y_pred))
                  (of_nat (true_pos y_true y_pred + false_neg y_true y_pred))))"

definition f1_score :: "nat list \<Rightarrow> nat list \<Rightarrow> error + rat" where
  "f1_score y_true y_pred =
     (case (precision_score y_true y_pred, recall_score y_true y_pred) of
        (Inr p, Inr r) \<Rightarrow> Inr (ratio_or_zero (2 * p * r) (p + r))
      | (Inl e, _) \<Rightarrow> Inl e
      | (_, Inl e) \<Rightarrow> Inl e)"

subsection \<open>Predicates of the specification\<close>

text \<open>A token that consists solely of punctuation characters.\<close>

definition punct_only :: "string \<Rightarrow> bool" where
  "punct_only t = (t \<noteq> [] \<and> list_all (\<lambda>c. c \<in> set punctuations) t)"

text \<open>A token that is one punctuation character.\<close>

definition punct_char :: "string \<Rightarrow> bool" where
  "punct_char t = (case t of [c] \<Rightarrow> c \<in> set punctuations | _ \<Rightarrow> False)"



section \<open>Properties\<close>

subsection \<open>The tokenizer as a filter over the normalized lemmas\<close>

lemma spacy_tokenizer_filter:
  "spacy_tokenizer ul nlp s =
     filter (\<lambda>t. t \<notin> stop_words \<and> \<not> str_contains punctuations t)
       (map (\<lambda>w. lower ul (lemma_str w)) (nlp s))"
  by (simp add: spacy_tokenizer_def)

lemma tokenizer_of_lemmas:
  assumes "map lemma_str (nlp s) = ls"
  shows "spacy_tokenizer ul nlp s =
     filter (\<lambda>t. t \<notin> stop_words \<and> \<not> str_contains punctuations t) (map (lower ul) ls)"
proof -
  have "map (\<lambda>w. lower ul (lemma_str w)) (nlp s) = map (lower ul) (map lemma_str (nlp s))"
    by simp
  then show ?thesis
    using assms by (simp only: spacy_tokenizer_filter)
qed

lemma str_contains_sublist: "str_contains s sub \<longleftrightarrow> sublist sub s"
  by (induction s) (auto simp: sublist_Cons_right)

subsection \<open>Case folding\<close>



lemma lower_ascii_eval:
  assumes "list_all is_ascii s" and "map lower_char s = r"
  shows "lower ul s = r"
  using assms by (simp add: lower_def)







subsection \<open>The sample strings, evaluated\<close>

lemma lower_I: "lower ul ''I'' = ''i''"
  by (rule lower_ascii_eval) code_simp+

lemma lower_be: "lower ul ''be'' = ''be''"
  by (rule lower_ascii_eval) code_simp+

lemma lower_eat: "lower ul ''eat'' = ''eat''"
  by (rule lower_ascii_eval) code_simp+

lemma lower_apple: "lower ul ''apple'' = ''apple''"
  by (rule lower_ascii_eval) code_simp+

lemma lower_comma: "lower ul '','' = '',''"
  by (rule lower_ascii_eval) code_simp+

lemma lower_like: "lower ul ''like'' = ''like''"
  by (rule lower_ascii_eval) code_simp+

lemma lower_play: "lower ul ''play'' = ''play''"
  by (rule lower_ascii_eval) code_simp+

lemma lower_cricket: "lower ul ''cricket'' = ''cricket''"
  by (rule lower_ascii_eval) code_simp+

lemma lower_London: "lower ul ''London'' = ''london''"
  by (rule lower_ascii_eval) code_simp+

lemma lower_dots: "lower ul ''...'' = ''...''"
  by (rule lower_ascii_eval) code_simp+

lemma lower_wait: "lower ul ''wait'' = ''wait''"
  by (rule lower_ascii_eval) code_simp+

lemmas lower_samples = lower_I lower_be lower_eat lower_apple lower_comma lower_like
  lower_play lower_cricket lower_London lower_dots lower_wait

lemma stop_i: "''i'' \<in> stop_words"
  by (simp add: stop_words_def stop_words_list_def)

lemma stop_be: "''be'' \<in> stop_words"
  by (simp add: stop_words_def stop_words_list_def)

lemma nostop_eat: "''eat'' \<notin> stop_words"
  by (simp add: stop_words_def stop_words_list_def)

lemma nostop_apple: "''apple'' \<notin> stop_words"
  by (simp add: stop_words_def stop_words_list_def)

lemma nostop_like: "''like'' \<notin> stop_words"
  by (simp add: stop_words_def stop_words_list_def)

lemma nostop_play: "''play'' \<notin> stop_words"
  by (simp add: stop_words_def stop_words_list_def)

lemma nostop_cricket: "''cricket'' \<notin> stop_words"
  by (simp add: stop_words_def stop_words_list_def)

lemma nostop_london: "''london'' \<notin> stop_words"
  by (simp add: stop_words_def stop_words_list_def)

lemma nostop_dots: "''...'' \<notin> stop_words"
  by (simp add: stop_words_def stop_words_list_def)

lemma nostop_wait: "''wait'' \<notin> stop_words"
  by (simp add: stop_words_def stop_words_list_def)

lemmas stop_samples = stop_i stop_be nostop_eat nostop_apple nostop_like nostop_play
  nostop_cricket nostop_london nostop_dots nostop_wait

lemma punct_comma: "str_contains punctuations '',''"
  by (simp add: punctuations_def)

lemma nopunct_eat: "\<not> str_contains punctuations ''eat''"
  by (simp add: punctuations_def)

lemma nopunct_apple: "\<not> str_contains punctuations ''apple''"
  by (simp add: punctuations_def)

lemma nopunct_like: "\<not> str_contains punctuations ''like''"
  by (simp add: punctuations_def)

lemma nopunct_play: "\<not> str_contains punctuations ''play''"
  by (simp add: punctuations_def)

lemma nopunct_cricket: "\<not> str_contains punctuations ''cricket''"
  by (simp add: punctuations_def)

lemma nopunct_london: "\<not> str_contains punctuations ''london''"
  by (simp add: punctuations_def)

lemma nopunct_dots: "\<not> str_contains punctuations ''...''"
  by (simp add: punctuations_def)

lemma nopunct_wait: "\<not> str_contains punctuations ''wait''"
  by (simp add: punctuations_def)

lemma punct_parens: "str_contains punctuations ''()''"
  by (simp add: punctuations_def)

lemmas punct_samples = punct_comma nopunct_eat nopunct_apple nopunct_like nopunct_play
  nopunct_cricket nopunct_london nopunct_dots nopunct_wait

lemma filter_sentence1:
  "filter (\<lambda>t. t \<notin> stop_words \<and> \<not> str_contains punctuations t)
     (map (lower ul) [''I'', ''be'', ''eat'', ''apple'', '','', ''I'', ''like'', ''apple''])
   = [''eat'', ''apple'', ''like'', ''apple'']"
  by (simp add: lower_samples stop_samples punct_samples)

lemma filter_sentence2:
  "filter (\<lambda>t. t \<notin> stop_words \<and> \<not> str_contains punctuations t)
     (map (lower ul) [''I'', ''be'', ''play'', ''cricket''])
   = [''play'', ''cricket'']"
  by (simp add: lower_samples stop_samples punct_samples)

lemma sample_sentence1:
  "map lemma_str (sample_nlp ''I am eating apple, I like apple'')
     = [''I'', ''be'', ''eat'', ''apple'', '','', ''I'', ''like'', ''apple'']"
  by code_simp

lemma sample_sentence2:
  "map lemma_str (sample_nlp ''I am playing cricket'') = [''I'', ''be'', ''play'', ''cricket'']"
  by code_simp

lemma sample_apple: "map lemma_str (sample_nlp ''apple'') = [''apple'']"
  by code_simp

lemma sample_empty: "sample_nlp [] = []"
  by code_simp


lemma sample_dots: "map lemma_str (sample_nlp ''Wait...'') = [''wait'', ''...'']"
  by code_simp


lemma sample_apple_normalized:
  "map (\<lambda>w. lower ul (lemma_str w)) (sample_nlp ''apple'') = [''apple'']"
proof -
  have "map (\<lambda>w. lower ul (lemma_str w)) (sample_nlp ''apple'')
          = map (lower ul) (map lemma_str (sample_nlp ''apple''))"
    by simp
  then show ?thesis
    by (simp only: sample_apple list.map lower_apple)
qed

lemma dots_punct_only: "punct_only ''...''"
  by (simp add: punct_only_def punctuations_def)


lemma wait_dots_tokens: "spacy_tokenizer ul sample_nlp ''Wait...'' = [''wait'', ''...'']"
  using tokenizer_of_lemmas [of sample_nlp "''Wait...''", OF sample_dots]
  by (simp add: lower_samples stop_samples punct_samples)








subsection \<open>Count vectorizer on the two sentences\<close>

lemma sorted_terms:
  "sort (remdups ([''eat'', ''apple'', ''like'', ''apple''] @ [''play'', ''cricket'']))
     = [''apple'', ''cricket'', ''eat'', ''like'', ''play'']"
  by code_simp

lemma indexed_terms:
  "zip [''apple'', ''cricket'', ''eat'', ''like'', ''play'']
       [0..<length [''apple'', ''cricket'', ''eat'', ''like'', ''play'']]
     = [(''apple'', 0), (''cricket'', 1), (''eat'', 2), (''like'', 3), (''play'', 4)]"
  by code_simp

lemma row_sentence1:
  "count_row (map_of [(''apple'', 0), (''cricket'', 1), (''eat'', 2), (''like'', 3), (''play'', 4)])
     [''eat'', ''apple'', ''like'', ''apple'']
     (replicate (length [(''apple'', 0::nat), (''cricket'', 1), (''eat'', 2), (''like'', 3), (''play'', 4)]) 0)
     = [2, 0, 1, 1, 0]"
  by code_simp

lemma row_sentence2:
  "count_row (map_of [(''apple'', 0), (''cricket'', 1), (''eat'', 2), (''like'', 3), (''play'', 4)])
     [''play'', ''cricket'']
     (replicate (length [(''apple'', 0::nat), (''cricket'', 1), (''eat'', 2), (''like'', 3), (''play'', 4)]) 0)
     = [0, 1, 0, 0, 1]"
  by code_simp

lemma vocabulary_update: "vocabulary (c\<lparr>vocabulary := v\<rparr>) = v"
  by simp

lemma fit_two_documents:
  assumes "tokenizer c d1 = [''eat'', ''apple'', ''like'', ''apple'']"
      and "tokenizer c d2 = [''play'', ''cricket'']"
  shows "vocabulary (fit c [d1, d2])
           = [(''apple'', 0), (''cricket'', 1), (''eat'', 2), (''like'', 3), (''play'', 4)]"
    and "tokenizer (fit c [d1, d2]) = tokenizer c"
proof -
  have "concat (map (tokenizer c) [d1, d2])
          = [''eat'', ''apple'', ''like'', ''apple''] @ [''play'', ''cricket'']"
    by (simp only: list.map concat.simps assms append_Nil2)
  then have "vocabulary (fit c [d1, d2])
          = zip [''apple'', ''cricket'', ''eat'', ''like'', ''play'']
              [0..<length [''apple'', ''cricket'', ''eat'', ''like'', ''play'']]"
    by (simp only: fit_def Let_def sorted_terms vocabulary_update)
  then show "vocabulary (fit c [d1, d2])
           = [(''apple'', 0), (''cricket'', 1), (''eat'', 2), (''like'', 3), (''play'', 4)]"
    by (simp only: indexed_terms)
  show "tokenizer (fit c [d1, d2]) = tokenizer c"
    by (simp add: fit_def Let_def)
qed

lemma fit_transform_two_documents:
  assumes "tokenizer c d1 = [''eat'', ''apple'', ''like'', ''apple'']"
      and "tokenizer c d2 = [''play'', ''cricket'']"
  shows "snd (fit_transform c [d1, d2]) = [[2, 0, 1, 1, 0], [0, 1, 0, 0, 1]]"
    and "get_feature_names_out (fst (fit_transform c [d1, d2]))
           = [''apple'', ''cricket'', ''eat'', ''like'', ''play'']"
    and "vocabulary (fst (fit_transform c [d1, d2]))
           = [(''apple'', 0), (''cricket'', 1), (''eat'', 2), (''like'', 3), (''play'', 4)]"
proof -
  note v = fit_two_documents [OF assms]
  show "snd (fit_transform c [d1, d2]) = [[2, 0, 1, 1, 0], [0, 1, 0, 0, 1]]"
    by (simp only: fit_transform_def Let_def snd_conv transform_def v assms list.map
        row_sentence1 row_sentence2)
  show "get_feature_names_out (fst (fit_transform c [d1, d2]))
           = [''apple'', ''cricket'', ''eat'', ''like'', ''play'']"
    by (simp add: fit_transform_def Let_def get_feature_names_out_def v(1))
  show "vocabulary (fst (fit_transform c [d1, d2]))
           = [(''apple'', 0), (''cricket'', 1), (''eat'', 2), (''like'', 3), (''play'', 4)]"
    by (simp add: fit_transform_def Let_def v(1))
qed

subsection \<open>Label counts of the evaluator\<close>

lemma true_pos_no_pred: "1 \<notin> set y_pred \<Longrightarrow> true_pos y_true y_pred = 0"
  by (auto simp: true_pos_def filter_empty_conv dest: set_zip_rightD)

lemma false_pos_no_pred: "1 \<notin> set y_pred \<Longrightarrow> false_pos y_true y_pred = 0"
  by (auto simp: false_pos_def filter_empty_conv dest: set_zip_rightD)

lemma true_pos_no_true: "1 \<notin> set y_true \<Longrightarrow> true_pos y_true y_pred = 0"
  by (auto simp: true_pos_def filter_empty_conv dest: set_zip_leftD)

lemma false_neg_no_true: "1 \<notin> set y_true \<Longrightarrow> false_neg y_true y_pred = 0"
  by (auto simp: false_neg_def filter_empty_conv dest: set_zip_leftD)

lemma pred_pos_counted:
  assumes "length y_true = length y_pred" and "1 \<in> set y_pred"
  shows "0 < true_pos y_true y_pred + false_pos y_true y_pred"
proof -
  from assms(2) obtain i where i: "i < length y_pred" "y_pred ! i = 1"
    by (auto simp: in_set_conv_nth)
  with assms(1) have "i < length (zip y_true y_pred)"
    and "zip y_true y_pred ! i = (y_true ! i, 1)"
    by simp_all
  then have mem: "(y_true ! i, 1) \<in> set (zip y_true y_pred)"
    by (metis nth_mem)
  show ?thesis
  proof (cases "y_true ! i = 1")
    case True
    with mem have "(y_true ! i, 1) \<in> set (filter (\<lambda>(t, p). t = 1 \<and> p = 1) (zip y_true y_pred))"
      by simp
    then have "0 < true_pos y_true y_pred"
      unfolding true_pos_def by (rule length_pos_if_in_set)
    then show ?thesis by simp
  next
    case False
    with mem have "(y_true ! i, 1) \<in> set (filter (\<lambda>(t, p). t \<noteq> 1 \<and> p = 1) (zip y_true y_pred))"
      by simp
    then have "0 < false_pos y_true y_pred"
      unfolding false_pos_def by (rule length_pos_if_in_set)
    then show ?thesis by simp
  qed
qed

lemma true_pos_counted:
  assumes "length y_true = length y_pred" and "1 \<in> set y_true"
  shows "0 < true_pos y_true y_pred + false_neg y_true y_pred"
proof -
  from assms(2) obtain i where i: "i < length y_true" "y_true ! i = 1"
    by (auto simp: in_set_conv_nth)
  with assms(1) have "i < length (zip y_true y_pred)"
    and "zip y_true y_pred ! i = (1, y_pred ! i)"
    by simp_all
  then have mem: "(1, y_pred ! i) \<in> set (zip y_true y_pred)"
    by (metis nth_mem)
  show ?thesis
  proof (cases "y_pred ! i = 1")
    case True
    with mem have "(1, y_pred ! i) \<in> set (filter (\<lambda>(t, p). t = 1 \<and> p = 1) (zip y_true y_pred))"
      by simp
    then have "0 < true_pos y_true y_pred"
      unfolding true_pos_def by (rule length_pos_if_in_set)
    then show ?thesis by simp
  next
    case False
    with mem have "(1, y_pred ! i) \<in> set (filter (\<lambda>(t, p). t = 1 \<and> p \<noteq> 1) (zip y_true y_pred))"
      by simp
    then have "0 < false_neg y_true y_pred"
      unfolding false_neg_def by (rule length_pos_if_in_set)
    then show ?thesis by simp
  qed
qed

lemma py_div_undefined: "py_div num den = Inl ZeroDivisionError \<longleftrightarrow> den = 0"
  by (simp add: py_div_def)

lemma ratio_or_zero_undefined: "py_div num den = Inl ZeroDivisionError \<Longrightarrow> ratio_or_zero num den = 0"
  by (simp add: ratio_or_zero_def)

lemma precision_undefined_iff:
  assumes "length y_true = length y_pred"
  shows "py_div (of_nat (true_pos y_true y_pred))
           (of_nat (true_pos y_true y_pred + false_pos y_true y_pred)) = Inl ZeroDivisionError
         \<longleftrightarrow> 1 \<notin> set y_pred"
proof
  assume "py_div (of_nat (true_pos y_true y_pred))
           (of_nat (true_pos y_true y_pred + false_pos y_true y_pred)) = Inl ZeroDivisionError"
  then have "true_pos y_true y_pred + false_pos y_true y_pred = 0"
    unfolding py_div_undefined by (simp only: of_nat_eq_0_iff)
  with pred_pos_counted [OF assms] show "1 \<notin> set y_pred"
    by force
next
  assume "1 \<notin> set y_pred"
  then show "py_div (of_nat (true_pos y_true y_pred))
           (of_nat (true_pos y_true y_pred + false_pos y_true y_pred)) = Inl ZeroDivisionError"
    by (simp add: py_div_def true_pos_no_pred false_pos_no_pred)
qed

lemma recall_undefined_iff:
  assumes "length y_true = length y_pred"
  shows "py_div (of_nat (true_pos y_true y_pred))
           (of_nat (true_pos y_true y_pred + false_neg y_true y_pred)) = Inl ZeroDivisionError
         \<longleftrightarrow> 1 \<notin> set y_true"
proof
  assume "py_div (of_nat (true_pos y_true y_pred))
           (of_nat (true_pos y_true y_pred + false_neg y_true y_pred)) = Inl ZeroDivisionError"
  then have "true_pos y_true y_pred + false_neg y_true y_pred = 0"
    unfolding py_div_undefined by (simp only: of_nat_eq_0_iff)
  with true_pos_counted [OF assms] show "1 \<notin> set y_true"
    by force
next
  assume "1 \<notin> set y_true"
  then show "py_div (of_nat (true_pos y_true y_pred))
           (of_nat (true_pos y_true y_pred + false_neg y_true y_pred)) = Inl ZeroDivisionError"
    by (simp add: py_div_def true_pos_no_true false_neg_no_true)
qed

lemma precision_value:
  assumes "length y_true = length y_pred"
  shows "precision_score y_true y_pred
           = Inr (ratio_or_zero (of_nat (true_pos y_true y_pred))
                   (of_nat (true_pos y_true y_pred + false_pos y_true y_pred)))"
  using assms by (simp add: precision_score_def)

lemma recall_value:
  assumes "length y_true = length y_pred"
  shows "recall_score y_true y_pred
           = Inr (ratio_or_zero (of_nat (true_pos y_true y_pred))
                   (of_nat (true_pos y_true y_pred + false_neg y_true y_pred)))"
  using assms by (simp add: recall_score_def)

lemma ratio_of_counts_zero_iff: "ratio_or_zero (of_nat a) (of_nat (a + b)) = 0 \<longleftrightarrow> a = 0"
  by (auto simp add: ratio_or_zero_def py_div_def)

lemma ratio_of_counts_nonneg: "0 \<le> ratio_or_zero (of_nat a) (of_nat (a + b))"
  by (simp add: ratio_or_zero_def py_div_def)

lemma f1_undefined_iff:
  "py_div (2 * ratio_or_zero (of_nat a) (of_nat (a + b)) * ratio_or_zero (of_nat a) (of_nat (a + c)))
     (ratio_or_zero (of_nat a) (of_nat (a + b)) + ratio_or_zero (of_nat a) (of_nat (a + c)))
     = Inl ZeroDivisionError \<longleftrightarrow> a = 0"
proof -
  have "ratio_or_zero (of_nat a) (of_nat (a + b)) + ratio_or_zero (of_nat a) (of_nat (a + c)) = 0
        \<longleftrightarrow> ratio_or_zero (of_nat a) (of_nat (a + b)) = 0
          \<and> ratio_or_zero (of_nat a) (of_nat (a + c)) = 0"
    using ratio_of_counts_nonneg [of a b] ratio_of_counts_nonneg [of a c]
    by (rule add_nonneg_eq_0_iff)
  then show ?thesis
    by (simp only: py_div_undefined ratio_of_counts_zero_iff simp_thms)
qed

lemma true_pos_zero_iff: "true_pos y_true y_pred = 0 \<longleftrightarrow> (1, 1) \<notin> set (zip y_true y_pred)"
  by (auto simp: true_pos_def filter_empty_conv)

lemma zero_labels_length: "length [0, 0, 0::nat] = length [0, 0, 0::nat]"
  by simp

lemma crossed_labels_length: "length [1, 0::nat] = length [0, 1::nat]"
  by simp

subsection \<open>Claims\<close>

text \<open>
  C1. The claim asks that no token of the output be a stop word or consist solely of
  punctuation characters, and the comment in the source says that the filter removes
  the tokens that are stop words or punctuations. On the sentence \<^verbatim>\<open>Wait...\<close>,
  parsed into the tokens \<^verbatim>\<open>Wait\<close> and \<^verbatim>\<open>...\<close>, the tokenizer returns
  \<^verbatim>\<open>["wait", "..."]\<close>: the ellipsis consists solely of punctuation characters and is
  in the output, because \<^verbatim>\<open>token not in punctuations\<close> is a substring test and the
  ellipsis is not a substring of the punctuation string.
\<close>

theorem punct_only_token_kept:
  "spacy_tokenizer ulower sample_nlp ''Wait...'' = [''wait'', ''...''] \<and> punct_only ''...''"
  using wait_dots_tokens dots_punct_only by (rule conjI)

text \<open>
  C2. Given the lemmas of the pipeline for the two sentences of the notebook, fitting
  the count vectorizer built on the tokenizer to exactly these two sentences gives a
  2 by 5 matrix, the feature names \<^verbatim>\<open>apple, cricket, eat, like, play\<close> in this column
  order, the vocabulary that maps each of them to its column, row 0 equal to
  \<^verbatim>\<open>[2,0,1,1,0]\<close> and row 1 equal to \<^verbatim>\<open>[0,1,0,0,1]\<close>.
\<close>

theorem count_vectorizer_notebook_sentences:
  assumes "map lemma_str (nlp ''I am eating apple, I like apple'')
             = [''I'', ''be'', ''eat'', ''apple'', '','', ''I'', ''like'', ''apple'']"
      and "map lemma_str (nlp ''I am playing cricket'') = [''I'', ''be'', ''play'', ''cricket'']"
  shows "snd (fit_transform (cv ulower nlp) sentences) = [[2, 0, 1, 1, 0], [0, 1, 0, 0, 1]]
       \<and> shape (snd (fit_transform (cv ulower nlp) sentences)) = (2, 5)
       \<and> get_feature_names_out (fst (fit_transform (cv ulower nlp) sentences))
           = [''apple'', ''cricket'', ''eat'', ''like'', ''play'']
       \<and> vocabulary (fst (fit_transform (cv ulower nlp) sentences))
           = [(''apple'', 0), (''cricket'', 1), (''eat'', 2), (''like'', 3), (''play'', 4)]"
proof -
  have s1: "spacy_tokenizer ulower nlp ''I am eating apple, I like apple''
              = [''eat'', ''apple'', ''like'', ''apple'']"
    using tokenizer_of_lemmas [of nlp "''I am eating apple, I like apple''", OF assms(1)]
    by (simp only: filter_sentence1)
  have s2: "spacy_tokenizer ulower nlp ''I am playing cricket'' = [''play'', ''cricket'']"
    using tokenizer_of_lemmas [of nlp "''I am playing cricket''", OF assms(2)]
    by (simp only: filter_sentence2)
  have t1: "tokenizer (cv ulower nlp) ''I am eating apple, I like apple''
              = [''eat'', ''apple'', ''like'', ''apple'']"
    by (simp add: cv_def s1)
  have t2: "tokenizer (cv ulower nlp) ''I am playing cricket'' = [''play'', ''cricket'']"
    by (simp add: cv_def s2)
  note r = fit_transform_two_documents [OF t1 t2]
  have m: "snd (fit_transform (cv ulower nlp) sentences) = [[2, 0, 1, 1, 0], [0, 1, 0, 0, 1]]"
    unfolding sentences_def by (rule r(1))
  have "shape (snd (fit_transform (cv ulower nlp) sentences)) = (2, 5)"
    unfolding m by (simp add: shape_def)
  with m r(2) r(3) show ?thesis
    unfolding sentences_def by simp
qed

theorem count_vectorizer_notebook_sentences_witness:
  "snd (fit_transform (cv sample_ulower sample_nlp) sentences)
       = [[2, 0, 1, 1, 0], [0, 1, 0, 0, 1]]
   \<and> shape (snd (fit_transform (cv sample_ulower sample_nlp) sentences)) = (2, 5)
   \<and> get_feature_names_out (fst (fit_transform (cv sample_ulower sample_nlp) sentences))
       = [''apple'', ''cricket'', ''eat'', ''like'', ''play'']
   \<and> vocabulary (fst (fit_transform (cv sample_ulower sample_nlp) sentences))
       = [(''apple'', 0), (''cricket'', 1), (''eat'', 2), (''like'', 3), (''play'', 4)]"
  by (rule count_vectorizer_notebook_sentences [OF sample_sentence1 sample_sentence2])

text \<open>
  C3. Given that the pipeline lemmatizes the two sentences of the notebook as its outputs
  show (\<^verbatim>\<open>I, be, eat, apple, ",", I, like, apple\<close> and \<^verbatim>\<open>I, be, play, cricket\<close>), the
  tokenizer returns exactly \<^verbatim>\<open>["eat", "apple", "like", "apple"]\<close> for the first and
  \<^verbatim>\<open>["play", "cricket"]\<close> for the second: the pronoun, the auxiliary verb and the comma
  are removed.
\<close>

theorem tokenizer_notebook_sentences:
  assumes "map lemma_str (nlp ''I am eating apple, I like apple'')
             = [''I'', ''be'', ''eat'', ''apple'', '','', ''I'', ''like'', ''apple'']"
      and "map lemma_str (nlp ''I am playing cricket'') = [''I'', ''be'', ''play'', ''cricket'']"
  shows "spacy_tokenizer ulower nlp ''I am eating apple, I like apple''
             = [''eat'', ''apple'', ''like'', ''apple'']
       \<and> spacy_tokenizer ulower nlp ''I am playing cricket'' = [''play'', ''cricket'']"
  using tokenizer_of_lemmas [of nlp "''I am eating apple, I like apple''", OF assms(1)]
    tokenizer_of_lemmas [of nlp "''I am playing cricket''", OF assms(2)]
  by (simp only: filter_sentence1 filter_sentence2)

theorem tokenizer_notebook_sentences_witness:
  "spacy_tokenizer sample_ulower sample_nlp ''I am eating apple, I like apple''
             = [''eat'', ''apple'', ''like'', ''apple'']
       \<and> spacy_tokenizer sample_ulower sample_nlp ''I am playing cricket''
             = [''play'', ''cricket'']"
  by (rule tokenizer_notebook_sentences [OF sample_sentence1 sample_sentence2])




text \<open>
  C5. On the empty string, for which the pipeline yields the empty document, the
  tokenizer returns the empty list.
\<close>

theorem tokenizer_empty_string:
  assumes "nlp [] = []"
  shows "spacy_tokenizer ulower nlp [] = []"
  using assms by (simp add: spacy_tokenizer_filter)

theorem tokenizer_empty_string_witness: "spacy_tokenizer sample_ulower sample_nlp [] = []"
  by (rule tokenizer_empty_string [of sample_nlp, OF sample_empty])

text \<open>
  C6. A string that the pipeline reads as a single token already in normalized form,
  and that passes both membership tests, is returned as the only token; tokenizing the
  tokens of the result again reproduces the result.
\<close>

theorem retokenize_single_token:
  assumes "map (\<lambda>w. lower ulower (lemma_str w)) (nlp s) = [s]"
      and "s \<notin> stop_words"
      and "\<not> str_contains punctuations s"
  shows "spacy_tokenizer ulower nlp s = [s]
       \<and> concat (map (spacy_tokenizer ulower nlp) (spacy_tokenizer ulower nlp s))
           = spacy_tokenizer ulower nlp s"
proof -
  have "spacy_tokenizer ulower nlp s = [s]"
    using assms by (simp add: spacy_tokenizer_filter)
  then show ?thesis
    by simp
qed

theorem retokenize_single_token_witness:
  "spacy_tokenizer sample_ulower sample_nlp ''apple'' = [''apple'']
   \<and> concat (map (spacy_tokenizer sample_ulower sample_nlp)
               (spacy_tokenizer sample_ulower sample_nlp ''apple''))
       = spacy_tokenizer sample_ulower sample_nlp ''apple''"
  by (rule retokenize_single_token [of sample_ulower sample_nlp "''apple''",
      OF sample_apple_normalized nostop_apple nopunct_apple])

text \<open>
  C8. For predicted and true label sequences of equal length, precision, recall and F1
  are returned and never raise. The division of precision is undefined exactly when no
  label is predicted positive, that of recall exactly when no true label is positive,
  and that of F1 exactly when no position is positive in both sequences; in each of
  these cases the score is 0.
\<close>

theorem scores_zero_when_undefined:
  assumes "length y_true = length y_pred"
  shows "(py_div (of_nat (true_pos y_true y_pred))
            (of_nat (true_pos y_true y_pred + false_pos y_true y_pred)) = Inl ZeroDivisionError
          \<longleftrightarrow> 1 \<notin> set y_pred)
       \<and> (1 \<notin> set y_pred \<longrightarrow> precision_score y_true y_pred = Inr 0)
       \<and> (py_div (of_nat (true_pos y_true y_pred))
            (of_nat (true_pos y_true y_pred + false_neg y_true y_pred)) = Inl ZeroDivisionError
          \<longleftrightarrow> 1 \<notin> set y_true)
       \<and> (1 \<notin> set y_true \<longrightarrow> recall_score y_true y_pred = Inr 0)
       \<and> (\<exists>p r f. precision_score y_true y_pred = Inr p \<and> recall_score y_true y_pred = Inr r
              \<and> f1_score y_true y_pred = Inr f
              \<and> (py_div (2 * p * r) (p + r) = Inl ZeroDivisionError
                   \<longleftrightarrow> (1, 1) \<notin> set (zip y_true y_pred))
              \<and> (py_div (2 * p * r) (p + r) = Inl ZeroDivisionError \<longrightarrow> f = 0))"
proof -
  let ?p = "ratio_or_zero (of_nat (true_pos y_true y_pred))
              (of_nat (true_pos y_true y_pred + false_pos y_true y_pred))"
  let ?r = "ratio_or_zero (of_nat (true_pos y_true y_pred))
              (of_nat (true_pos y_true y_pred + false_neg y_true y_pred))"
  note pu = precision_undefined_iff [OF assms]
  note ru = recall_undefined_iff [OF assms]
  have pv: "precision_score y_true y_pred = Inr ?p"
    by (rule precision_value [OF assms])
  have rv: "recall_score y_true y_pred = Inr ?r"
    by (rule recall_value [OF assms])
  have fv: "f1_score y_true y_pred = Inr (ratio_or_zero (2 * ?p * ?r) (?p + ?r))"
    by (simp add: f1_score_def pv rv)
  have p0: "1 \<notin> set y_pred \<longrightarrow> precision_score y_true y_pred = Inr 0"
    using pu pv ratio_or_zero_undefined by force
  have r0: "1 \<notin> set y_true \<longrightarrow> recall_score y_true y_pred = Inr 0"
    using ru rv ratio_or_zero_undefined by force
  have fu: "py_div (2 * ?p * ?r) (?p + ?r) = Inl ZeroDivisionError
              \<longleftrightarrow> (1, 1) \<notin> set (zip y_true y_pred)"
    by (simp only: f1_undefined_iff true_pos_zero_iff)
  have f0: "py_div (2 * ?p * ?r) (?p + ?r) = Inl ZeroDivisionError
              \<longrightarrow> ratio_or_zero (2 * ?p * ?r) (?p + ?r) = 0"
    using ratio_or_zero_undefined by blast
  from pv rv fv fu f0
  have "\<exists>p r f. precision_score y_true y_pred = Inr p \<and> recall_score y_true y_pred = Inr r
              \<and> f1_score y_true y_pred = Inr f
              \<and> (py_div (2 * p * r) (p + r) = Inl ZeroDivisionError
                   \<longleftrightarrow> (1, 1) \<notin> set (zip y_true y_pred))
              \<and> (py_div (2 * p * r) (p + r) = Inl ZeroDivisionError \<longrightarrow> f = 0)"
    by blast
  with pu p0 ru r0 show ?thesis
    by (intro conjI)
qed

theorem scores_zero_when_undefined_witness:
  "precision_score [0, 0, 0] [0, 0, 0] = Inr 0
   \<and> recall_score [0, 0, 0] [0, 0, 0] = Inr 0
   \<and> f1_score [0, 0, 0] [0, 0, 0] = Inr 0
   \<and> f1_score [1, 0] [0, 1] = Inr 0"
proof -
  have a: "precision_score [0, 0, 0] [0, 0, 0] = Inr 0 \<and> recall_score [0, 0, 0] [0, 0, 0] = Inr 0
           \<and> f1_score [0, 0, 0] [0, 0, 0] = Inr 0"
    using scores_zero_when_undefined [OF zero_labels_length] by auto
  have b: "f1_score [1, 0] [0, 1] = Inr 0"
    using scores_zero_when_undefined [OF crossed_labels_length] by auto
  from a b show ?thesis by simp
qed

text \<open>
  C9. The punctuation string has 32 characters and the punctuation test of the
  tokenizer is the substring test on it, not membership in the set of its characters:
  a normalized token is dropped by the test exactly when it is a contiguous substring
  of the string. The token \<^verbatim>\<open>()\<close>, which is not a single punctuation character, is
  always removed; the token \<^verbatim>\<open>...\<close>, made of punctuation characters only, is in the
  output whenever it is among the normalized lemmas.
\<close>

theorem punctuation_test_is_substring:
  "length punctuations = 32
   \<and> (str_contains punctuations t \<longleftrightarrow> sublist t punctuations)
   \<and> spacy_tokenizer ulower nlp s =
       filter (\<lambda>t. t \<notin> stop_words \<and> \<not> sublist t punctuations)
         (map (\<lambda>w. lower ulower (lemma_str w)) (nlp s))
   \<and> (sublist ''()'' punctuations \<and> \<not> punct_char ''()''
        \<and> ''()'' \<notin> set (spacy_tokenizer ulower nlp s))
   \<and> (\<not> sublist ''...'' punctuations \<and> punct_only ''...''
        \<and> (''...'' \<in> set (spacy_tokenizer ulower nlp s)
             \<longleftrightarrow> ''...'' \<in> set (map (\<lambda>w. lower ulower (lemma_str w)) (nlp s))))"
proof -
  have len: "length punctuations = 32"
    by (simp add: punctuations_def)
  have flt: "spacy_tokenizer ulower nlp s =
       filter (\<lambda>t. t \<notin> stop_words \<and> \<not> sublist t punctuations)
         (map (\<lambda>w. lower ulower (lemma_str w)) (nlp s))"
    by (simp add: spacy_tokenizer_filter str_contains_sublist)
  have parens: "sublist ''()'' punctuations"
    using punct_parens by (simp add: str_contains_sublist)
  have parens_char: "\<not> punct_char ''()''"
    by (simp add: punct_char_def)
  have parens_out: "''()'' \<notin> set (spacy_tokenizer ulower nlp s)"
    unfolding flt using parens by simp
  have dots: "\<not> sublist ''...'' punctuations"
    using nopunct_dots by (simp add: str_contains_sublist)
  have dots_in: "''...'' \<in> set (spacy_tokenizer ulower nlp s)
             \<longleftrightarrow> ''...'' \<in> set (map (\<lambda>w. lower ulower (lemma_str w)) (nlp s))"
    unfolding flt using dots nostop_dots by auto
  from len str_contains_sublist [of punctuations t] flt parens parens_char parens_out
    dots dots_punct_only dots_in
  show ?thesis
    by (intro conjI)
qed

text \<open>
  C10. The list the tokenizer returns is a subsequence of the list of lower-cased lemmas
  of the pipeline's tokens: filtering only removes elements and never reorders,
  duplicates, inserts or rewrites one.
\<close>

theorem tokenizer_subseq:
  "subseq (spacy_tokenizer ulower nlp s) (map (\<lambda>w. lower ulower (lemma_str w)) (nlp s))"
  by (simp add: spacy_tokenizer_filter)

end
